theory Spec2Isabelle
  imports Complex_Main
begin

section \<open>Cells, series and frames\<close>

text \<open>
  The program is \<^verbatim>\<open>decade-trends/parse_generators.py\<close>: three pandas pipelines
  (\<^verbatim>\<open>parse_generators\<close>, \<^verbatim>\<open>parse_proposed\<close>, \<^verbatim>\<open>parse_retired\<close>) over a sheet read
  by \<^verbatim>\<open>pd.read_excel\<close>, and the constant table \<^verbatim>\<open>energy_source_mapping\<close>.

  A cell of a sheet is a Python object: an integer, a float, a string, or the float
  \<^verbatim>\<open>nan\<close> that pandas uses for a missing value; cells of other kinds (booleans,
  dates) are not modelled. Floats are modelled by exact
  rationals: the rounding error of binary64 arithmetic, infinities and the 64-bit range
  of \<^verbatim>\<open>astype(int)\<close> are outside the model. Strings are lists of 8-bit characters;
  the labels and codes of the sheets are taken to be ASCII.
\<close>

datatype cell = PyInt int | PyFloat rat | PyStr string | NaN

datatype error =
    KeyError | AttributeError | TypeError | ValueError | AssertionError | NotASeries

text \<open>
  A frame is its row index and its labelled columns, in order; two columns may carry the
  same label. \<^verbatim>\<open>pd.read_excel\<close> returns a frame whose index is \<open>0, 1, \<dots>, n - 1\<close>
  and whose columns all have \<open>n\<close> cells.
\<close>

record frame =
  index :: "cell list"
  columns :: "(string \<times> cell list) list"

definition labels :: "frame \<Rightarrow> string list" where
  "labels df = map fst (columns df)"

definition range_index :: "nat \<Rightarrow> cell list" where
  "range_index n = map (\<lambda>i. PyInt (int i)) [0..<n]"

definition is_sheet :: "frame \<Rightarrow> bool" where
  "is_sheet df \<longleftrightarrow>
     index df = range_index (length (index df)) \<and>
     list_all (\<lambda>c. length (snd c) = length (index df)) (columns df)"

text \<open>An exception aborts the rest of the computation: \<open>Inl\<close> is the exception raised.\<close>

definition and_then :: "error + 'a \<Rightarrow> ('a \<Rightarrow> error + 'b) \<Rightarrow> error + 'b" where
  "and_then r f = (case r of Inl e \<Rightarrow> Inl e | Inr x \<Rightarrow> f x)"

fun map_result :: "('a \<Rightarrow> error + 'b) \<Rightarrow> 'a list \<Rightarrow> error + 'b list" where
  "map_result f [] = Inr []"
| "map_result f (x # xs) =
     (case f x of
        Inl e \<Rightarrow> Inl e
      | Inr y \<Rightarrow> (case map_result f xs of Inl e \<Rightarrow> Inl e | Inr ys \<Rightarrow> Inr (y # ys)))"

subsection \<open>Frame operations\<close>

text \<open>
  \<^verbatim>\<open>df.rename(columns=m)\<close>: every label that is a key of \<open>m\<close> is replaced by its
  value, all labels at once; the data of the columns stay where they are.
\<close>

definition rename_label :: "(string \<times> string) list \<Rightarrow> string \<Rightarrow> string" where
  "rename_label m l = (case map_of m l of Some l' \<Rightarrow> l' | None \<Rightarrow> l)"

definition rename :: "(string \<times> string) list \<Rightarrow> frame \<Rightarrow> frame" where
  "rename m df = df\<lparr>columns := map (\<lambda>c. (rename_label m (fst c), snd c)) (columns df)\<rparr>"

text \<open>
  \<^verbatim>\<open>df.name\<close> (error \<open>AttributeError\<close>) and \<^verbatim>\<open>df[name]\<close> (error \<open>KeyError\<close>) give
  the column of that label. When several columns carry the label pandas returns a frame,
  for which the pipelines are not written: the model stops there with \<open>NotASeries\<close>.
\<close>

definition series :: "error \<Rightarrow> string \<Rightarrow> frame \<Rightarrow> error + cell list" where
  "series missing name df =
     (case filter (\<lambda>c. fst c = name) (columns df) of
        [] \<Rightarrow> Inl missing
      | [c] \<Rightarrow> Inr (snd c)
      | _ \<Rightarrow> Inl NotASeries)"

definition getattr :: "string \<Rightarrow> frame \<Rightarrow> error + cell list" where
  "getattr name df = series AttributeError name df"

definition getitem :: "string \<Rightarrow> frame \<Rightarrow> error + cell list" where
  "getitem name df = series KeyError name df"

text \<open>
  \<^verbatim>\<open>df[name] = col\<close>, \<^verbatim>\<open>df.name = col\<close> for an existing column, and
  \<^verbatim>\<open>df.assign(name=col)\<close>: the column of that label is overwritten in place, or a
  new column is appended.
\<close>

definition setitem :: "string \<Rightarrow> cell list \<Rightarrow> frame \<Rightarrow> frame" where
  "setitem name col df =
     (if name \<in> set (labels df)
      then df\<lparr>columns := map (\<lambda>c. (fst c, if fst c = name then col else snd c)) (columns df)\<rparr>
      else df\<lparr>columns := columns df @ [(name, col)]\<rparr>)"

text \<open>\<^verbatim>\<open>df[name] = scalar\<close> broadcasts the scalar over the rows.\<close>

definition setitem_scalar :: "string \<Rightarrow> cell \<Rightarrow> frame \<Rightarrow> frame" where
  "setitem_scalar name v df = setitem name (replicate (length (index df)) v) df"

text \<open>\<^verbatim>\<open>df[[name1, name2, \<dots>]]\<close>: the columns of these labels, in the order asked.\<close>

definition select :: "string list \<Rightarrow> frame \<Rightarrow> error + frame" where
  "select names df =
     (if set names \<subseteq> set (labels df)
      then Inr (df\<lparr>columns := concat (map (\<lambda>n. filter (\<lambda>c. fst c = n) (columns df)) names)\<rparr>)
      else Inl KeyError)"

text \<open>\<^verbatim>\<open>df.set_index(name)\<close>: the column becomes the index and leaves the columns.\<close>

definition set_index :: "string \<Rightarrow> frame \<Rightarrow> error + frame" where
  "set_index name df =
     and_then (getitem name df) (\<lambda>col.
       Inr \<lparr>index = col, columns = filter (\<lambda>c. fst c \<noteq> name) (columns df)\<rparr>)"

text \<open>\<^verbatim>\<open>df[mask]\<close> with a boolean series: the rows where the mask is true.\<close>

definition keep :: "bool list \<Rightarrow> 'a list \<Rightarrow> 'a list" where
  "keep sel xs = map snd (filter fst (zip sel xs))"

definition filter_rows :: "bool list \<Rightarrow> frame \<Rightarrow> frame" where
  "filter_rows sel df =
     \<lparr>index = keep sel (index df),
      columns = map (\<lambda>c. (fst c, keep sel (snd c))) (columns df)\<rparr>"

definition eq_str :: "cell list \<Rightarrow> string \<Rightarrow> bool list" where
  "eq_str col s = map (\<lambda>c. c = PyStr s) col"

definition isin :: "cell list \<Rightarrow> string list \<Rightarrow> bool list" where
  "isin col vals = map (\<lambda>c. c \<in> set (map PyStr vals)) col"

definition mask_and :: "bool list \<Rightarrow> bool list \<Rightarrow> bool list" where
  "mask_and a b = map (\<lambda>p. fst p \<and> snd p) (zip a b)"

subsection \<open>Cell conversions\<close>

text \<open>
  The conversions between strings and numbers that pandas delegates to Python
  (\<^verbatim>\<open>float(s)\<close>, \<^verbatim>\<open>int(s)\<close>, \<^verbatim>\<open>str(x)\<close> of a float) are parameters of the model:
  \<open>None\<close> is Python's \<open>ValueError\<close>.
\<close>

record pyconv =
  float_of_str :: "string \<Rightarrow> cell option"
  int_of_str :: "string \<Rightarrow> int option"
  str_of_float :: "rat \<Rightarrow> string"

fun str_of_nat :: "nat \<Rightarrow> string" where
  "str_of_nat n =
     (if n < 10 then [''0123456789'' ! n]
      else str_of_nat (n div 10) @ [''0123456789'' ! (n mod 10)])"

definition str_of_int :: "int \<Rightarrow> string" where
  "str_of_int i = (if i < 0 then ''-'' @ str_of_nat (nat (- i)) else str_of_nat (nat i))"

text \<open>\<^verbatim>\<open>series.astype('str')\<close>, cell by cell.\<close>

fun astype_str :: "pyconv \<Rightarrow> cell \<Rightarrow> string" where
  "astype_str py (PyInt i) = str_of_int i"
| "astype_str py (PyFloat q) = str_of_float py q"
| "astype_str py (PyStr s) = s"
| "astype_str py NaN = ''nan''"

text \<open>
  \<^verbatim>\<open>strings + series\<close>, cell by cell: a string is appended, a missing cell makes the
  sum missing, a number raises \<open>TypeError\<close>.
\<close>

fun str_add :: "string \<Rightarrow> cell \<Rightarrow> error + cell" where
  "str_add a (PyStr b) = Inr (PyStr (a @ b))"
| "str_add a NaN = Inr NaN"
| "str_add a (PyInt i) = Inl TypeError"
| "str_add a (PyFloat q) = Inl TypeError"

text \<open>\<^verbatim>\<open>series.replace(' ', np.nan)\<close>, cell by cell.\<close>

definition replace_blank :: "cell \<Rightarrow> cell" where
  "replace_blank c = (if c = PyStr '' '' then NaN else c)"

fun astype_float :: "pyconv \<Rightarrow> cell \<Rightarrow> error + cell" where
  "astype_float py (PyInt i) = Inr (PyFloat (of_int i))"
| "astype_float py (PyFloat q) = Inr (PyFloat q)"
| "astype_float py NaN = Inr NaN"
| "astype_float py (PyStr s) =
     (case float_of_str py s of None \<Rightarrow> Inl ValueError | Some c \<Rightarrow> Inr c)"

text \<open>
  \<^verbatim>\<open>series.replace(' ', np.nan).astype(float)\<close>, one whole-column operation after
  the other.
\<close>

definition coerce_float :: "pyconv \<Rightarrow> cell list \<Rightarrow> error + cell list" where
  "coerce_float py col = map_result (astype_float py) (map replace_blank col)"

text \<open>\<^verbatim>\<open>series.round()\<close> rounds to the nearest integer, a tie to the even one.\<close>

definition round_half_even :: "rat \<Rightarrow> int" where
  "round_half_even q =
     (let f = \<lfloor>q\<rfloor>; d = q - of_int f
      in if d < 1 / 2 then f else if 1 / 2 < d then f + 1 else if even f then f else f + 1)"

fun round_cell :: "cell \<Rightarrow> error + cell" where
  "round_cell (PyInt i) = Inr (PyInt i)"
| "round_cell (PyFloat q) = Inr (PyFloat (of_int (round_half_even q)))"
| "round_cell NaN = Inr NaN"
| "round_cell (PyStr s) = Inl TypeError"

text \<open>\<^verbatim>\<open>series.astype(int)\<close>: a float is truncated towards zero, \<^verbatim>\<open>nan\<close> raises.\<close>

definition trunc :: "rat \<Rightarrow> int" where
  "trunc q = (if 0 \<le> q then \<lfloor>q\<rfloor> else \<lceil>q\<rceil>)"

fun astype_int :: "pyconv \<Rightarrow> cell \<Rightarrow> error + cell" where
  "astype_int py (PyInt i) = Inr (PyInt i)"
| "astype_int py (PyFloat q) = Inr (PyInt (trunc q))"
| "astype_int py NaN = Inl ValueError"
| "astype_int py (PyStr s) =
     (case int_of_str py s of None \<Rightarrow> Inl ValueError | Some i \<Rightarrow> Inr (PyInt i))"


text \<open>\<^verbatim>\<open>series / 1000\<close>, cell by cell.\<close>

fun truediv :: "rat \<Rightarrow> cell \<Rightarrow> error + cell" where
  "truediv d (PyInt i) = Inr (PyFloat (of_int i / d))"
| "truediv d (PyFloat q) = Inr (PyFloat (q / d))"
| "truediv d NaN = Inr NaN"
| "truediv d (PyStr s) = Inl TypeError"

section \<open>The fuel table\<close>

definition energy_source_mapping :: "(string \<times> string) list" where
  "energy_source_mapping =
     [(''NG'', ''natural gas''), (''BIT'', ''coal''), (''SUB'', ''coal''), (''NUC'', ''nuclear''),
      (''WAT'', ''hydro''), (''WND'', ''wind''), (''RFO'', ''oil''), (''DFO'', ''oil''),
      (''LIG'', ''coal''), (''GEO'', ''other''), (''PC'', ''oil''), (''MSW'', ''by-products''),
      (''WDS'', ''by-products''), (''LFG'', ''by-products''), (''WH'', ''other''),
      (''WC'', ''coal''), (''KER'', ''oil''), (''SUN'', ''solar''), (''SGC'', ''coal''),
      (''JF'', ''oil''), (''OBL'', ''by-products''), (''AB'', ''by-products''), (''WO'', ''oil''),
      (''TDF'', ''by-products''), (''OBS'', ''by-products''), (''MWH'', ''storage''),
      (''OBG'', ''by-products''), (''OG'', ''natural gas''),
      (''SGP'', ''oil''), (''RC'', ''coal''), (''OTH'', ''other''), (''PG'', ''oil''),
      (''COL'', ''coal''), (''PET'', ''oil''), (''UNK'', ''other''), (''GAS'', ''natural gas''),
      (''OO'', ''other''), (''WOC'', ''other''), (''REF'', ''by-products''), (''MF'', ''other'')]"

text \<open>
  \<^verbatim>\<open>series.replace(energy_source_mapping)\<close>: a cell that is a key of the table is
  replaced by its value, every other cell is left as it is. \<open>classify\<close> is the action on
  a string, \<open>replace_mapping\<close> the action on a cell.
\<close>

definition classify :: "string \<Rightarrow> string" where
  "classify s = (case map_of energy_source_mapping s of Some v \<Rightarrow> v | None \<Rightarrow> s)"

fun replace_mapping :: "cell \<Rightarrow> cell" where
  "replace_mapping (PyStr s) = PyStr (classify s)"
| "replace_mapping c = c"

section \<open>Column labels\<close>

definition lower_char :: "char \<Rightarrow> char" where
  "lower_char c =
     (case map_of (zip ''ABCDEFGHIJKLMNOPQRSTUVWXYZ'' ''abcdefghijklmnopqrstuvwxyz'') c of
        Some d \<Rightarrow> d
      | None \<Rightarrow> c)"

definition lower :: "string \<Rightarrow> string" where
  "lower s = map lower_char s"

definition replace_char :: "char \<Rightarrow> char \<Rightarrow> string \<Rightarrow> string" where
  "replace_char a b s = map (\<lambda>c. if c = a then b else c) s"

definition remove_char :: "char \<Rightarrow> string \<Rightarrow> string" where
  "remove_char a s = filter (\<lambda>c. c \<noteq> a) s"

fun startswith :: "string \<Rightarrow> string \<Rightarrow> bool" where
  "startswith s [] = True"
| "startswith [] (p # ps) = False"
| "startswith (c # cs) (p # ps) = (c = p \<and> startswith cs ps)"

text \<open>\<^verbatim>\<open>s.split(sep)[0]\<close>: the part of \<open>s\<close> before the first occurrence of \<open>sep\<close>.\<close>

fun split_first :: "string \<Rightarrow> string \<Rightarrow> string" where
  "split_first sep [] = []"
| "split_first sep (c # cs) = (if startswith (c # cs) sep then [] else c # split_first sep cs)"

text \<open>
  \<^verbatim>\<open>c.lower().replace(' ', '_').replace('?', '').replace('/', '_').split('_(')[0]\<close>
\<close>

definition normalize_label :: "string \<Rightarrow> string" where
  "normalize_label c =
     split_first ''_(''
       (replace_char CHR ''/'' CHR ''_''
         (remove_char CHR ''?'' (replace_char CHR '' '' CHR ''_'' (lower c))))"

text \<open>The dictionary \<^verbatim>\<open>{c: f(c) for c in df.columns}\<close>.\<close>

definition label_dict :: "(string \<Rightarrow> string) \<Rightarrow> frame \<Rightarrow> (string \<times> string) list" where
  "label_dict f df = map (\<lambda>c. (c, f c)) (labels df)"

section \<open>The pipelines\<close>

definition url_by_year :: "(int \<times> string) list" where
  "url_by_year =
     [(2018, ''https://www.eia.gov/electricity/data/eia860/xls/eia8602018.zip''),
      (2010, ''https://www.eia.gov/electricity/data/eia860/archive/xls/eia8602010.zip''),
      (2000, ''https://www.eia.gov/electricity/data/eia860/eia860a/eia860a2000.zip'')]"

text \<open>
  \<^verbatim>\<open>_get_file(year)\<close> downloads the archive of the year; a year that is not a key of
  \<^verbatim>\<open>url_by_year\<close> raises \<open>KeyError\<close>. The download and the reading of the sheet are
  outside the model: each pipeline takes the frame that \<^verbatim>\<open>pd.read_excel\<close> returned.
\<close>

definition get_file :: "int \<Rightarrow> error + string" where
  "get_file year = (case map_of url_by_year year of None \<Rightarrow> Inl KeyError | Some u \<Rightarrow> Inr u)"

subsection \<open>\<^verbatim>\<open>parse_generators\<close>\<close>

definition generators_columns :: "string list" where
  "generators_columns =
     [''generator_uuid'', ''utility_name'', ''plant_name'', ''state'', ''county'', ''status'',
      ''sector'', ''nameplate_capacity'', ''energy_source_1'', ''operating_year'',
      ''planned_retirement_year'']"

definition rename_batch :: "(string \<times> string) list" where
  "rename_batch =
     [(''nameplate'', ''nameplate_capacity''), (''sector_name'', ''sector''),
      (''sector'', ''sector_code'')]"

text \<open>Lines 86 to 90: the labels are normalised, those of 2010 only put in lower case.\<close>

definition generators_normalized :: "int \<Rightarrow> frame \<Rightarrow> frame" where
  "generators_normalized year sheet =
     rename (label_dict (\<lambda>c. if year = 2010 then lower c else normalize_label c) sheet) sheet"

text \<open>Lines 91 to 95: the batch of renames.\<close>

definition generators_renamed :: "int \<Rightarrow> frame \<Rightarrow> frame" where
  "generators_renamed year sheet = rename rename_batch (generators_normalized year sheet)"

text \<open>
  Line 97: \<^verbatim>\<open>df.plant_code.astype('str') + '_' + df.generator_id\<close>.
\<close>

definition generator_uuid :: "pyconv \<Rightarrow> cell \<Rightarrow> cell \<Rightarrow> error + cell" where
  "generator_uuid py plant_code generator_id = str_add (astype_str py plant_code @ ''_'') generator_id"

definition generator_uuids :: "pyconv \<Rightarrow> frame \<Rightarrow> error + cell list" where
  "generator_uuids py df =
     and_then (getattr ''plant_code'' df) (\<lambda>plant_code.
     and_then (getattr ''generator_id'' df) (\<lambda>generator_id.
       map_result (\<lambda>p. generator_uuid py (fst p) (snd p)) (zip plant_code generator_id)))"

text \<open>Lines 96 to 98: the key column, the projection and the new index.\<close>

definition generators_keyed :: "pyconv \<Rightarrow> frame \<Rightarrow> error + frame" where
  "generators_keyed py df =
     and_then (generator_uuids py df) (\<lambda>uuid.
     and_then (select generators_columns (setitem ''generator_uuid'' uuid df)) (\<lambda>df.
       set_index ''generator_uuid'' df))"

text \<open>Lines 100 to 102, after the assertion of line 99.\<close>

definition generators_classified :: "pyconv \<Rightarrow> frame \<Rightarrow> error + frame" where
  "generators_classified py df =
     and_then (getattr ''planned_retirement_year'' df) (\<lambda>pry.
     and_then (coerce_float py pry) (\<lambda>pry.
     let df = setitem ''planned_retirement_year'' pry df in
     and_then (getattr ''energy_source_1'' df) (\<lambda>es1.
     let df = setitem ''energy_source'' (map replace_mapping es1) df in
     and_then (getattr ''status'' df) (\<lambda>status.
     and_then (getattr ''sector'' df) (\<lambda>sector.
       Inr (filter_rows
              (mask_and (eq_str status ''OP'')
                 (isin sector [''Electric Utility'', ''IPP Non-CHP'', ''IPP'']))
              df))))))"

text \<open>
  Line 99 is \<^verbatim>\<open>assert(df.index.is_unique)\<close>; the model is of a run with assertions
  enabled.
\<close>

definition parse_generators :: "pyconv \<Rightarrow> int \<Rightarrow> frame \<Rightarrow> error + frame" where
  "parse_generators py year sheet =
     and_then (get_file year) (\<lambda>file.
     and_then (generators_keyed py (generators_renamed year sheet)) (\<lambda>df.
       if distinct (index df) then generators_classified py df else Inl AssertionError))"

subsection \<open>\<^verbatim>\<open>parse_proposed\<close>\<close>

definition proposed_columns :: "string list" where
  "proposed_columns =
     [''utility_name'', ''plant_name'', ''plant_code'', ''state'', ''county'',
      ''nameplate_capacity'', ''status'', ''energy_source_1'', ''effective_year'', ''sector'']"

text \<open>Lines 111 to 113: the labels are normalised, whatever the year.\<close>

definition proposed_normalized :: "frame \<Rightarrow> frame" where
  "proposed_normalized sheet = rename (label_dict normalize_label sheet) sheet"

text \<open>Lines 114 to 117: the batch of renames.\<close>

definition proposed_renamed :: "frame \<Rightarrow> frame" where
  "proposed_renamed sheet = rename rename_batch (proposed_normalized sheet)"

text \<open>Lines 130 to 133: the mask of the rows that are kept.\<close>

definition proposed_mask :: "cell list \<Rightarrow> cell list \<Rightarrow> bool list" where
  "proposed_mask sector status =
     mask_and (isin sector [''IPP Non-CHP'', ''Electric Utility''])
       (isin status [''TS'', ''V'', ''U'', ''T''])"

definition parse_proposed :: "pyconv \<Rightarrow> int \<Rightarrow> frame \<Rightarrow> error + frame" where
  "parse_proposed py year sheet =
     and_then (get_file year) (\<lambda>file.
     and_then (select proposed_columns (proposed_renamed sheet)) (\<lambda>df.
     and_then (getattr ''sector'' df) (\<lambda>sector.
     and_then (getattr ''status'' df) (\<lambda>status.
     let df = filter_rows (proposed_mask sector status) df in
     and_then (getattr ''energy_source_1'' df) (\<lambda>es1.
     let df = setitem ''energy_source'' (map replace_mapping es1) df in
     and_then (getattr ''effective_year'' df) (\<lambda>ey.
     and_then (coerce_float py ey) (\<lambda>ey.
       Inr (setitem ''effective_year'' ey df))))))))"

subsection \<open>\<^verbatim>\<open>parse_retired\<close>\<close>

definition retired_columns :: "string list" where
  "retired_columns =
     [''utility_name'', ''plant_name'', ''plant_code'', ''state'', ''county'',
      ''nameplate_capacity'', ''energy_source'', ''operating_year'', ''retirement_year'']"

definition retired_rename_batch :: "(string \<times> string) list" where
  "retired_rename_batch = [(''sector_name'', ''sector''), (''sector'', ''sector_code'')]"

text \<open>Lines 144 to 146: the labels are normalised, whatever the year.\<close>

definition retired_normalized :: "frame \<Rightarrow> frame" where
  "retired_normalized sheet = rename (label_dict normalize_label sheet) sheet"

text \<open>Lines 147 to 150: the batch of renames.\<close>

definition retired_renamed :: "frame \<Rightarrow> frame" where
  "retired_renamed sheet = rename retired_rename_batch (retired_normalized sheet)"

definition swap_batch :: "(string \<times> string) list" where
  "swap_batch =
     [(''operating_month'', ''operating_year''), (''operating_year'', ''operating_month''),
      (''retirement_month'', ''retirement_year''), (''retirement_year'', ''retirement_month''),
      (''existing_nameplate'', ''nameplate_capacity''),
      (''existing_energy_source_1'', ''energy_source_1''), (''existing_status'', ''status'')]"

text \<open>Lines 152 to 165: the fix-up of the sheets of 2000 and before, up to the rescaling.\<close>

definition retired_relabelled :: "frame \<Rightarrow> frame" where
  "retired_relabelled df =
     setitem_scalar ''county'' (PyStr '''')
       (setitem_scalar ''state'' (PyStr '''')
         (setitem_scalar ''plant_name'' (PyStr '''')
           (setitem_scalar ''utility_name'' (PyStr '''')
             (rename swap_batch (setitem_scalar ''sector'' (PyStr ''Electric Utility'') df)))))"

text \<open>Line 166: \<^verbatim>\<open>df.nameplate_capacity = df.nameplate_capacity / 1000\<close>.\<close>

definition retired_fixup :: "frame \<Rightarrow> error + frame" where
  "retired_fixup df =
     (let df = retired_relabelled df in
      and_then (getattr ''nameplate_capacity'' df) (\<lambda>nc.
      and_then (map_result (truediv 1000) nc) (\<lambda>nc.
        Inr (setitem ''nameplate_capacity'' nc df))))"

text \<open>Lines 169 to 172: the mask of the rows that are kept.\<close>

definition retired_mask :: "cell list \<Rightarrow> cell list \<Rightarrow> bool list" where
  "retired_mask sector status =
     mask_and (isin sector [''IPP Non-CHP'', ''Electric Utility'']) (eq_str status ''RE'')"

text \<open>
  Line 184: \<^verbatim>\<open>df[col].replace(' ', np.nan).round().astype(int)\<close>, one whole-column
  operation after the other.
\<close>

definition coerce_int :: "pyconv \<Rightarrow> cell list \<Rightarrow> error + cell list" where
  "coerce_int py col =
     and_then (map_result round_cell (map replace_blank col)) (\<lambda>col.
       map_result (astype_int py) col)"

text \<open>Lines 183 and 184: the loop over the three numeric columns.\<close>

fun coerce_loop :: "pyconv \<Rightarrow> string list \<Rightarrow> frame \<Rightarrow> error + frame" where
  "coerce_loop py [] df = Inr df"
| "coerce_loop py (col # cols) df =
     and_then (getitem col df) (\<lambda>s.
     and_then (coerce_int py s) (\<lambda>s.
       coerce_loop py cols (setitem col s df)))"

text \<open>Lines 168 to 182: classification, filter and projection.\<close>

definition retired_selected :: "frame \<Rightarrow> error + frame" where
  "retired_selected df =
     and_then (getattr ''energy_source_1'' df) (\<lambda>es1.
     let df = setitem ''energy_source'' (map replace_mapping es1) df in
     and_then (getattr ''sector'' df) (\<lambda>sector.
     and_then (getattr ''status'' df) (\<lambda>status.
       select retired_columns (filter_rows (retired_mask sector status) df))))"

text \<open>Lines 144 to 166: the renames, and the fix-up when the year is 2000 or before.\<close>

definition retired_prepared :: "int \<Rightarrow> frame \<Rightarrow> error + frame" where
  "retired_prepared year sheet =
     (if year \<le> 2000 then retired_fixup (retired_renamed sheet)
      else Inr (retired_renamed sheet))"

definition coerced_columns :: "string list" where
  "coerced_columns = [''operating_year'', ''retirement_year'', ''nameplate_capacity'']"

definition parse_retired :: "pyconv \<Rightarrow> int \<Rightarrow> frame \<Rightarrow> error + frame" where
  "parse_retired py year sheet =
     and_then (get_file year) (\<lambda>file.
     and_then (retired_prepared year sheet) (\<lambda>df.
     and_then (retired_selected df) (\<lambda>df.
       coerce_loop py coerced_columns df)))"

section \<open>Example sheets\<close>

text \<open>
  The conversions of the examples: their numeric cells are numbers already, and no
  string of theirs reads as a number.
\<close>

definition example_conv :: pyconv where
  "example_conv =
     \<lparr>float_of_str = (\<lambda>s. None), int_of_str = (\<lambda>s. None), str_of_float = (\<lambda>q. [])\<rparr>"

text \<open>A sheet of 2018 with two generators of one plant.\<close>

definition operable_sheet :: "string \<Rightarrow> string \<Rightarrow> frame" where
  "operable_sheet id1 id2 =
     \<lparr>index = range_index 2,
      columns =
        [(''Utility Name'', [PyStr ''Acme Power'', PyStr ''Acme Power'']),
         (''Plant Code'', [PyInt 123, PyInt 123]),
         (''Plant Name'', [PyStr ''North'', PyStr ''North'']),
         (''State'', [PyStr ''CA'', PyStr ''CA'']),
         (''County'', [PyStr ''Kern'', PyStr ''Kern'']),
         (''Generator ID'', [PyStr id1, PyStr id2]),
         (''Status'', [PyStr ''OP'', PyStr ''OP'']),
         (''Sector Name'', [PyStr ''IPP Non-CHP'', PyStr ''Electric Utility'']),
         (''Sector'', [PyInt 2, PyInt 1]),
         (''Nameplate Capacity (MW)'', [PyFloat (5 / 2), PyInt 3]),
         (''Energy Source 1'', [PyStr ''NG'', PyStr ''XYZ'']),
         (''Operating Year'', [PyInt 1999, PyInt 2001]),
         (''Planned Retirement Year'', [PyStr '' '', PyInt 2030])]\<rparr>"

text \<open>A sheet of proposed generators with the statuses \<open>TS\<close>, \<open>P\<close> and \<open>V\<close>.\<close>

definition proposed_sheet :: frame where
  "proposed_sheet =
     \<lparr>index = range_index 3,
      columns =
        [(''Utility Name'', [PyStr ''Acme Power'', PyStr ''Acme Power'', PyStr ''Zenith'']),
         (''Plant Name'', [PyStr ''North'', PyStr ''South'', PyStr ''East'']),
         (''Plant Code'', [PyInt 1, PyInt 2, PyInt 3]),
         (''State'', [PyStr ''CA'', PyStr ''CA'', PyStr ''TX'']),
         (''County'', [PyStr ''Kern'', PyStr ''Inyo'', PyStr ''Bexar'']),
         (''Nameplate Capacity (MW)'', [PyInt 10, PyInt 20, PyFloat (61 / 2)]),
         (''Status'', [PyStr ''TS'', PyStr ''P'', PyStr ''V'']),
         (''Energy Source 1'', [PyStr ''SUN'', PyStr ''NG'', PyStr ''WND'']),
         (''Effective Year'', [PyInt 2020, PyInt 2021, PyStr '' '']),
         (''Sector Name'', [PyStr ''IPP Non-CHP'', PyStr ''IPP Non-CHP'', PyStr ''Electric Utility'']),
         (''Sector'', [PyInt 2, PyInt 2, PyInt 1])]\<rparr>"

text \<open>
  A sheet of 2000: capacities in kilowatts, the month and year columns exchanged, a third
  generator that is still operating and has no retirement date.
\<close>

definition retired_sheet :: "cell \<Rightarrow> frame" where
  "retired_sheet year2 =
     \<lparr>index = range_index 3,
      columns =
        [(''PLANT_CODE'', [PyInt 1, PyInt 2, PyInt 3]),
         (''EXISTING_NAMEPLATE'', [PyInt 2500, PyFloat (2999 / 2), PyInt 700]),
         (''EXISTING_ENERGY_SOURCE_1'', [PyStr ''COL'', PyStr ''GAS'', PyStr ''NG'']),
         (''EXISTING_STATUS'', [PyStr ''RE'', PyStr ''RE'', PyStr ''OP'']),
         (''OPERATING_MONTH'', [PyInt 1950, PyInt 1960, PyInt 1970]),
         (''OPERATING_YEAR'', [PyInt 1, PyInt 2, PyInt 3]),
         (''RETIREMENT_MONTH'', [PyInt 1990, year2, NaN]),
         (''RETIREMENT_YEAR'', [PyInt 5, PyInt 6, NaN])]\<rparr>"

text \<open>The frame that \<^verbatim>\<open>parse_retired\<close> returns for this sheet.\<close>

definition retired_result :: frame where
  "retired_result =
     \<lparr>index = [PyInt 0, PyInt 1],
      columns =
        [(''utility_name'', [PyStr [], PyStr []]),
         (''plant_name'', [PyStr [], PyStr []]),
         (''plant_code'', [PyInt 1, PyInt 2]),
         (''state'', [PyStr [], PyStr []]),
         (''county'', [PyStr [], PyStr []]),
         (''nameplate_capacity'', [PyInt 2, PyInt 1]),
         (''energy_source'', [PyStr ''coal'', PyStr ''natural gas'']),
         (''operating_year'', [PyInt 1950, PyInt 1960]),
         (''retirement_year'', [PyInt 1990, PyInt 1995])]\<rparr>"

section \<open>Properties of the fuel table\<close>

lemma mapping_keys_distinct: "distinct (map fst energy_source_mapping)"
  by code_simp

lemma mapping_values_not_keys:
  "list_all (\<lambda>kv. map_of energy_source_mapping (snd kv) = None) energy_source_mapping"
  by code_simp

lemma classify_key: "(k, v) \<in> set energy_source_mapping \<Longrightarrow> classify k = v"
  by (simp add: classify_def mapping_keys_distinct)

lemma classify_other: "s \<notin> fst ` set energy_source_mapping \<Longrightarrow> classify s = s"
  by (simp add: classify_def map_of_eq_None_iff [THEN iffD2])

lemma classify_value: "(k, v) \<in> set energy_source_mapping \<Longrightarrow> classify v = v"
  using mapping_values_not_keys by (auto simp: classify_def list_all_iff)

text \<open>
  Claim C5. The classifier sends every code of the table to the category the table gives
  for it, among them \<open>BIT\<close> to coal, \<open>NG\<close> to natural gas, \<open>MWH\<close> to storage, \<open>RC\<close> to
  coal and \<open>UNK\<close> to other; a string that is no key of the table is returned as it is.
  The classifier is a total function and the classification of a column keeps its
  length: no input raises.
\<close>

theorem C5_classify:
  "(\<forall>kv \<in> set energy_source_mapping. classify (fst kv) = snd kv) \<and>
   classify ''BIT'' = ''coal'' \<and> classify ''NG'' = ''natural gas'' \<and>
   classify ''MWH'' = ''storage'' \<and> classify ''RC'' = ''coal'' \<and> classify ''UNK'' = ''other'' \<and>
   (\<forall>s. s \<notin> fst ` set energy_source_mapping \<longrightarrow> classify s = s) \<and>
   (\<forall>s. replace_mapping (PyStr s) = PyStr (classify s)) \<and>
   (\<forall>col. length (map replace_mapping col) = length col)"
proof -
  have keys: "\<forall>kv \<in> set energy_source_mapping. classify (fst kv) = snd kv"
    using classify_key by auto
  have "(''BIT'', ''coal'') \<in> set energy_source_mapping"
       "(''NG'', ''natural gas'') \<in> set energy_source_mapping"
       "(''MWH'', ''storage'') \<in> set energy_source_mapping"
       "(''RC'', ''coal'') \<in> set energy_source_mapping"
       "(''UNK'', ''other'') \<in> set energy_source_mapping"
    by (simp_all add: energy_source_mapping_def)
  then have "classify ''BIT'' = ''coal''" "classify ''NG'' = ''natural gas''"
       "classify ''MWH'' = ''storage''" "classify ''RC'' = ''coal''" "classify ''UNK'' = ''other''"
    by (simp_all add: classify_key)
  with keys classify_other show ?thesis by simp
qed

theorem C5_classify_witness:
  "(''SUN'', ''solar'') \<in> set energy_source_mapping \<and> classify ''SUN'' = ''solar'' \<and>
   ''XYZ'' \<notin> fst ` set energy_source_mapping \<and> classify ''XYZ'' = ''XYZ''"
proof -
  have a: "(''SUN'', ''solar'') \<in> set energy_source_mapping"
    by (simp add: energy_source_mapping_def)
  have b: "''XYZ'' \<notin> fst ` set energy_source_mapping"
    by (simp add: energy_source_mapping_def)
  from C5_classify a have "classify (fst (''SUN'', ''solar'')) = snd (''SUN'', ''solar'')"
    by blast
  moreover from C5_classify b have "classify ''XYZ'' = ''XYZ''"
    by blast
  ultimately show ?thesis using a b by simp
qed

text \<open>
  Claim C9. Classifying twice is classifying once: no category of the table is itself a
  code of the table, so a category is returned unchanged.
\<close>

theorem C9_idempotent:
  "classify (classify x) = classify x \<and>
   (\<forall>c \<in> snd ` set energy_source_mapping. classify c = c)"
proof -
  have vals: "\<forall>c \<in> snd ` set energy_source_mapping. classify c = c"
    using classify_value by auto
  have "classify (classify x) = classify x"
  proof (cases "map_of energy_source_mapping x")
    case None
    then show ?thesis by (simp add: classify_def)
  next
    case (Some v)
    then have "(x, v) \<in> set energy_source_mapping" by (rule map_of_SomeD)
    moreover from Some have "classify x = v" by (simp add: classify_def)
    ultimately show ?thesis by (simp add: classify_value)
  qed
  with vals show ?thesis by simp
qed

theorem C9_idempotent_witness:
  "''coal'' \<in> snd ` set energy_source_mapping \<and> classify ''coal'' = ''coal'' \<and>
   classify (classify ''BIT'') = classify ''BIT''"
proof -
  have a: "''coal'' \<in> snd ` set energy_source_mapping"
    by (simp add: energy_source_mapping_def)
  from C9_idempotent [of "''BIT''"] a show ?thesis by blast
qed

section \<open>Properties of the list operations\<close>

lemma and_then_Inr_iff: "and_then r f = Inr y \<longleftrightarrow> (\<exists>x. r = Inr x \<and> f x = Inr y)"
  by (cases r) (simp_all add: and_then_def)

lemma and_then_Inl [simp]: "and_then (Inl e) f = Inl e"
  by (simp add: and_then_def)

lemma and_then_Inr [simp]: "and_then (Inr x) f = f x"
  by (simp add: and_then_def)

lemma map_result_Inr_iff: "map_result f xs = Inr ys \<longleftrightarrow> list_all2 (\<lambda>x y. f x = Inr y) xs ys"
proof (induction xs arbitrary: ys)
  case Nil
  then show ?case by auto
next
  case (Cons x xs)
  show ?case
    by (cases ys) (auto simp: Cons.IH [symmetric] split: sum.splits)
qed

lemma map_result_length: "map_result f xs = Inr ys \<Longrightarrow> length ys = length xs"
  by (simp add: map_result_Inr_iff list_all2_lengthD)

lemma map_result_nth:
  "map_result f xs = Inr ys \<Longrightarrow> i < length xs \<Longrightarrow> f (xs ! i) = Inr (ys ! i)"
  unfolding map_result_Inr_iff by (drule list_all2_nthD) simp_all

lemma map_result_fails: "x \<in> set xs \<Longrightarrow> f x = Inl e \<Longrightarrow> \<exists>e'. map_result f xs = Inl e'"
  by (induction xs) (auto split: sum.splits)

lemma keep_Nil [simp]: "keep [] xs = []" "keep sel [] = []"
  by (simp_all add: keep_def)

lemma keep_Cons [simp]:
  "keep (b # sel) (x # xs) = (if b then x # keep sel xs else keep sel xs)"
  by (simp add: keep_def)

lemma set_keep: "set (keep sel xs) \<subseteq> set xs"
  by (auto simp: keep_def dest: set_zip_rightD)

lemma distinct_keep: "distinct xs \<Longrightarrow> distinct (keep sel xs)"
proof (induction sel arbitrary: xs)
  case Nil
  then show ?case by simp
next
  case (Cons b sel)
  show ?case
  proof (cases xs)
    case Nil
    then show ?thesis by simp
  next
    case (Cons y ys)
    with Cons.prems Cons.IH [of ys] set_keep [of sel ys] show ?thesis by auto
  qed
qed

lemma keep_map: "keep sel (map f xs) = map f (keep sel xs)"
  by (induction sel arbitrary: xs) (case_tac xs; simp)+

lemma zip_as_map_nth:
  "zip xs ys = map (\<lambda>i. (xs ! i, ys ! i)) [0..<min (length xs) (length ys)]"
  by (rule nth_equalityI) simp_all

lemma keep_as_map_nth:
  "keep sel xs = map (\<lambda>i. xs ! i) (filter (\<lambda>i. sel ! i) [0..<min (length sel) (length xs)])"
  unfolding keep_def by (subst zip_as_map_nth) (simp add: filter_map comp_def)

lemma keep_range_index:
  "length sel = n \<Longrightarrow> keep sel (range_index n) = map (\<lambda>i. PyInt (int i)) (filter (\<lambda>i. sel ! i) [0..<n])"
  by (simp add: keep_as_map_nth range_index_def cong: map_cong)


section \<open>Properties of the frame operations\<close>

lemma index_rename [simp]: "index (rename m df) = index df"
  by (simp add: rename_def)

lemma index_setitem [simp]: "index (setitem n c df) = index df"
  by (simp add: setitem_def)

lemma index_setitem_scalar [simp]: "index (setitem_scalar n v df) = index df"
  by (simp add: setitem_scalar_def)

lemma index_filter_rows [simp]: "index (filter_rows sel df) = keep sel (index df)"
  by (simp add: filter_rows_def)

lemma index_select: "select names df = Inr df' \<Longrightarrow> index df' = index df"
  by (auto simp: select_def split: if_splits)


lemma labels_setitem: "set (labels (setitem n c df)) = insert n (set (labels df))"
  by (force simp: setitem_def labels_def)

lemma labels_setitem_present: "n \<in> set (labels df) \<Longrightarrow> labels (setitem n c df) = labels df"
  by (simp add: setitem_def labels_def comp_def)

lemma labels_filter_rows [simp]: "labels (filter_rows sel df) = labels df"
  by (simp add: filter_rows_def labels_def comp_def)

lemma labels_select: "select names df = Inr df' \<Longrightarrow> set (labels df') = set names"
  by (force simp: select_def labels_def split: if_splits)

lemma rename_label_dict: "l \<in> set (labels df) \<Longrightarrow> rename_label (label_dict f df) l = f l"
proof -
  have "map_of (map (\<lambda>c. (c, f c)) ls) l = Some (f l)" if "l \<in> set ls" for ls
    using that by (induction ls) auto
  then show "l \<in> set (labels df) \<Longrightarrow> rename_label (label_dict f df) l = f l"
    by (simp add: rename_label_def label_dict_def)
qed

lemma columns_rename_label_dict:
  "columns (rename (label_dict f df) df) = map (\<lambda>c. (f (fst c), snd c)) (columns df)"
  by (simp add: rename_def rename_label_dict labels_def)

lemma labels_rename_label_dict: "labels (rename (label_dict f df) df) = map f (labels df)"
  by (simp add: labels_def columns_rename_label_dict comp_def)

lemma filter_singleton: "filter P xs = [x] \<Longrightarrow> P x"
proof -
  assume "filter P xs = [x]"
  then have "x \<in> set (filter P xs)" by simp
  then show "P x" by simp
qed

lemma series_Inr_iff:
  "series e n df = Inr c \<longleftrightarrow> filter (\<lambda>x. fst x = n) (columns df) = [(n, c)]"
proof (cases "filter (\<lambda>x. fst x = n) (columns df)")
  case Nil
  then show ?thesis by (simp add: series_def)
next
  case (Cons x xs)
  show ?thesis
  proof (cases xs)
    case Nil
    with Cons have "fst x = n" by (auto dest: filter_singleton)
    with Cons Nil show ?thesis by (cases x) (auto simp: series_def)
  next
    case (Cons y ys)
    with \<open>filter (\<lambda>x. fst x = n) (columns df) = x # xs\<close> show ?thesis
      by (simp add: series_def)
  qed
qed

lemma series_cong:
  "filter (\<lambda>x. fst x = n) (columns df) = filter (\<lambda>x. fst x = n') (columns df') \<Longrightarrow>
   series e n df = series e n' df'"
  by (simp add: series_def)

lemma series_map_snd:
  "series e n (df\<lparr>columns := map (\<lambda>c. (fst c, g (snd c))) (columns df)\<rparr>) =
   (case series e n df of Inl x \<Rightarrow> Inl x | Inr c \<Rightarrow> Inr (g c))"
  by (simp add: series_def filter_map comp_def split: list.splits)

lemma series_rename:
  assumes "\<And>l. l \<in> set (labels df) \<Longrightarrow> rename_label m l = n \<longleftrightarrow> l = n'"
  shows "series e n (rename m df) = series e n' df"
proof -
  have "filter (\<lambda>x. rename_label m (fst x) = n) (columns df) =
        filter (\<lambda>x. fst x = n') (columns df)"
    by (rule filter_cong) (auto simp: assms labels_def)
  then show ?thesis
    by (simp add: series_def rename_def filter_map comp_def split: list.splits)
qed

lemma series_setitem_other: "n \<noteq> n' \<Longrightarrow> series e n (setitem n' c df) = series e n df"
  by (rule series_cong) (auto simp: setitem_def filter_map comp_def intro!: map_idI)

lemma series_setitem_same: "series e n (setitem n c df) = Inr c' \<Longrightarrow> c' = c"
  by (auto simp: series_Inr_iff setitem_def filter_map comp_def map_eq_Cons_conv
      split: if_splits)

lemma series_setitem_present:
  "series e n df = Inr c0 \<Longrightarrow> series e n (setitem n c df) = Inr c"
proof -
  assume a: "series e n df = Inr c0"
  then have f: "filter (\<lambda>x. fst x = n) (columns df) = [(n, c0)]"
    by (simp add: series_Inr_iff)
  then have "(n, c0) \<in> set (filter (\<lambda>x. fst x = n) (columns df))" by simp
  then have "n \<in> set (labels df)" by (force simp: labels_def)
  with f show ?thesis
    by (simp add: series_Inr_iff setitem_def filter_map comp_def)
qed

lemma series_filter_rows:
  "series e n (filter_rows sel df) =
   (case series e n df of Inl x \<Rightarrow> Inl x | Inr c \<Rightarrow> Inr (keep sel c))"
  by (simp add: series_def filter_rows_def filter_map comp_def split: list.splits)

lemma filter_concat_filters:
  "n \<in> set names \<Longrightarrow> distinct names \<Longrightarrow>
   filter (\<lambda>x. fst x = n) (concat (map (\<lambda>k. filter (\<lambda>x. fst x = k) cols) names)) =
   filter (\<lambda>x. fst x = n) cols"
proof (induction names)
  case Nil
  then show ?case by simp
next
  case (Cons k names)
  have other: "filter (\<lambda>x. fst x = n) (concat (map (\<lambda>k. filter (\<lambda>x. fst x = k) cols) ks)) = []"
    if "n \<notin> set ks" for ks
    using that by (induction ks) (auto simp: filter_empty_conv)
  show ?case
  proof (cases "k = n")
    case True
    with Cons.prems have "n \<notin> set names" by simp
    with True show ?thesis by (simp add: other)
  next
    case False
    with Cons show ?thesis by (auto simp: filter_empty_conv)
  qed
qed

lemma series_select:
  "select names df = Inr df' \<Longrightarrow> n \<in> set names \<Longrightarrow> distinct names \<Longrightarrow>
   series e n df' = series e n df"
  by (rule series_cong) (auto simp: select_def filter_concat_filters split: if_splits)

section \<open>The normalisation and the renames\<close>







text \<open>
  Claim C1, as amended. Only \<^verbatim>\<open>parse_generators\<close> tests the year: for 2010 it puts
  the labels in lower case and does nothing else, for every other year it normalises them
  in full. \<^verbatim>\<open>parse_proposed\<close> and \<^verbatim>\<open>parse_retired\<close> normalise the labels in full
  (lower case, spaces and slashes to underscores, question marks removed, cut at
  \<^verbatim>\<open>_(\<close>) for every year, 2010 included.
\<close>

theorem C1_normalization:
  "labels (generators_normalized 2010 sheet) = map lower (labels sheet) \<and>
   (year \<noteq> 2010 \<longrightarrow> labels (generators_normalized year sheet) = map normalize_label (labels sheet)) \<and>
   labels (proposed_normalized sheet) = map normalize_label (labels sheet) \<and>
   labels (retired_normalized sheet) = map normalize_label (labels sheet)"
  by (simp add: generators_normalized_def proposed_normalized_def retired_normalized_def
      labels_rename_label_dict)

theorem C1_normalization_witness:
  "(2018::int) \<noteq> 2010 \<and>
   labels (generators_normalized 2018 \<lparr>index = [], columns = [(''Plant Name?'', [])]\<rparr>) =
     [''plant_name''] \<and>
   labels (generators_normalized 2010 \<lparr>index = [], columns = [(''Plant Name?'', [])]\<rparr>) =
     [''plant name?'']"
proof -
  have n: "normalize_label ''Plant Name?'' = ''plant_name''" by code_simp
  have l: "lower ''Plant Name?'' = ''plant name?''" by code_simp
  have y: "(2018::int) \<noteq> 2010" by simp
  from C1_normalization [of "\<lparr>index = [], columns = [(''Plant Name?'', [])]\<rparr>" 2018] y n l
  show ?thesis by (simp add: labels_def)
qed

text \<open>
  The claim as stated fails for the two other pipelines: their normalisation does not
  depend on the year, and the label \<^verbatim>\<open>Plant Name\<close> becomes \<^verbatim>\<open>plant_name\<close>, not
  \<^verbatim>\<open>plant name\<close>.
\<close>

theorem C1_counterexample:
  "labels (proposed_normalized \<lparr>index = [], columns = [(''Plant Name'', [])]\<rparr>) \<noteq>
     map lower (labels \<lparr>index = [], columns = [(''Plant Name'', [])]\<rparr>) \<and>
   labels (retired_normalized \<lparr>index = [], columns = [(''Plant Name'', [])]\<rparr>) \<noteq>
     map lower (labels \<lparr>index = [], columns = [(''Plant Name'', [])]\<rparr>)"
  by code_simp



section \<open>The key of \<^verbatim>\<open>parse_generators\<close>\<close>


lemma generators_keyed_index:
  assumes "generators_keyed py df = Inr d"
  shows "generator_uuids py df = Inr (index d)"
proof -
  from assms obtain u d1 where u: "generator_uuids py df = Inr u"
    and d1: "select generators_columns (setitem ''generator_uuid'' u df) = Inr d1"
    and d: "set_index ''generator_uuid'' d1 = Inr d"
    by (auto simp: generators_keyed_def and_then_Inr_iff)
  from d obtain col where col: "getitem ''generator_uuid'' d1 = Inr col" and i: "index d = col"
    by (auto simp: set_index_def and_then_Inr_iff)
  have "series KeyError ''generator_uuid'' d1 =
        series KeyError ''generator_uuid'' (setitem ''generator_uuid'' u df)"
    using d1 by (rule series_select) (simp_all add: generators_columns_def)
  with col have "col = u"
    by (simp add: getitem_def series_setitem_same)
  with u i show ?thesis by simp
qed

lemma generators_classified_index:
  "generators_classified py df = Inr out \<Longrightarrow> \<exists>sel. index out = keep sel (index df)"
  by (auto simp: generators_classified_def and_then_Inr_iff Let_def)

lemma parse_generators_success:
  assumes "parse_generators py year sheet = Inr out"
  shows "\<exists>u sel. generator_uuids py (generators_renamed year sheet) = Inr u \<and> distinct u \<and>
           index out = keep sel u"
proof -
  from assms obtain d where d: "generators_keyed py (generators_renamed year sheet) = Inr d"
    and u: "distinct (index d)" and c: "generators_classified py d = Inr out"
    by (auto simp: parse_generators_def and_then_Inr_iff split: if_splits)
  from c obtain sel where "index out = keep sel (index d)"
    by (auto dest: generators_classified_index)
  with generators_keyed_index [OF d] u show ?thesis by blast
qed

lemma generator_uuids_nth:
  assumes "generator_uuids py df = Inr u"
    and "getattr ''plant_code'' df = Inr pc" and "getattr ''generator_id'' df = Inr gid"
  shows "length u = min (length pc) (length gid)"
    and "i < length pc \<Longrightarrow> i < length gid \<Longrightarrow> generator_uuid py (pc ! i) (gid ! i) = Inr (u ! i)"
proof -
  from assms have m: "map_result (\<lambda>p. generator_uuid py (fst p) (snd p)) (zip pc gid) = Inr u"
    by (simp add: generator_uuids_def)
  from map_result_length [OF m] show "length u = min (length pc) (length gid)" by simp
  assume "i < length pc" "i < length gid"
  with map_result_nth [OF m, of i]
  show "generator_uuid py (pc ! i) (gid ! i) = Inr (u ! i)" by simp
qed

text \<open>
  Claim C4. When two rows of the sheet give the same \<^verbatim>\<open>generator_uuid\<close>, that is the
  same \<^verbatim>\<open>str(plant_code) + '_' + generator_id\<close>, \<^verbatim>\<open>parse_generators\<close> raises and
  returns no frame. When it returns a frame, the keys computed from the rows of the sheet
  were pairwise distinct, and the index of the frame is a selection of them, hence
  pairwise distinct too.
\<close>

theorem C4_unique_key:
  "(getattr ''plant_code'' (generators_renamed year sheet) = Inr pc \<and>
    getattr ''generator_id'' (generators_renamed year sheet) = Inr gid \<and>
    i < j \<and> j < length pc \<and> j < length gid \<and>
    generator_uuid py (pc ! i) (gid ! i) = generator_uuid py (pc ! j) (gid ! j) \<longrightarrow>
    (\<exists>e. parse_generators py year sheet = Inl e)) \<and>
   (parse_generators py year sheet = Inr out \<longrightarrow>
    (\<exists>u sel. generator_uuids py (generators_renamed year sheet) = Inr u \<and> distinct u \<and>
       index out = keep sel u) \<and>
    distinct (index out))"
proof (intro conjI impI)
  assume a: "getattr ''plant_code'' (generators_renamed year sheet) = Inr pc \<and>
    getattr ''generator_id'' (generators_renamed year sheet) = Inr gid \<and>
    i < j \<and> j < length pc \<and> j < length gid \<and>
    generator_uuid py (pc ! i) (gid ! i) = generator_uuid py (pc ! j) (gid ! j)"
  show "\<exists>e. parse_generators py year sheet = Inl e"
  proof (cases "parse_generators py year sheet")
    case (Inl e)
    then show ?thesis by blast
  next
    case (Inr r)
    from parse_generators_success [OF Inr] obtain u
      where u: "generator_uuids py (generators_renamed year sheet) = Inr u" and d: "distinct u"
      by blast
    from a have len: "length u = min (length pc) (length gid)"
      using generator_uuids_nth(1) [OF u] by blast
    from a have "generator_uuid py (pc ! i) (gid ! i) = Inr (u ! i)"
      "generator_uuid py (pc ! j) (gid ! j) = Inr (u ! j)"
      using generator_uuids_nth(2) [OF u, of pc gid] by auto
    with a have "u ! i = u ! j" by simp
    moreover from a len have "i < length u" "j < length u" "i \<noteq> j" by auto
    ultimately have "\<not> distinct u" by (auto simp: distinct_conv_nth)
    with d show ?thesis by simp
  qed
next
  assume s: "parse_generators py year sheet = Inr out"
  then show "\<exists>u sel. generator_uuids py (generators_renamed year sheet) = Inr u \<and> distinct u \<and>
       index out = keep sel u"
    by (rule parse_generators_success)
  then show "distinct (index out)"
    by (auto simp: distinct_keep)
qed

theorem C4_unique_key_witness:
  "getattr ''plant_code'' (generators_renamed 2018 (operable_sheet ''A'' ''A'')) =
     Inr [PyInt 123, PyInt 123] \<and>
   getattr ''generator_id'' (generators_renamed 2018 (operable_sheet ''A'' ''A'')) =
     Inr [PyStr ''A'', PyStr ''A''] \<and>
   generator_uuid example_conv (PyInt 123) (PyStr ''A'') = Inr (PyStr ''123_A'') \<and>
   parse_generators example_conv 2018 (operable_sheet ''A'' ''A'') = Inl AssertionError \<and>
   (\<exists>e. parse_generators example_conv 2018 (operable_sheet ''A'' ''A'') = Inl e) \<and>
   map_sum id index (parse_generators example_conv 2018 (operable_sheet ''A'' ''B'')) =
     Inr [PyStr ''123_A'', PyStr ''123_B''] \<and>
   distinct [PyStr ''123_A'', PyStr ''123_B'']"
proof -
  have pc: "getattr ''plant_code'' (generators_renamed 2018 (operable_sheet ''A'' ''A'')) =
     Inr [PyInt 123, PyInt 123]" by code_simp
  have gid: "getattr ''generator_id'' (generators_renamed 2018 (operable_sheet ''A'' ''A'')) =
     Inr [PyStr ''A'', PyStr ''A'']" by code_simp
  have uuid: "generator_uuid example_conv (PyInt 123) (PyStr ''A'') = Inr (PyStr ''123_A'')"
    by code_simp
  have dup: "parse_generators example_conv 2018 (operable_sheet ''A'' ''A'') = Inl AssertionError"
    by code_simp
  have ok: "map_sum id index (parse_generators example_conv 2018 (operable_sheet ''A'' ''B'')) =
     Inr [PyStr ''123_A'', PyStr ''123_B'']" by code_simp
  then obtain out where out: "parse_generators example_conv 2018 (operable_sheet ''A'' ''B'') = Inr out"
    and i: "index out = [PyStr ''123_A'', PyStr ''123_B'']"
    by (cases "parse_generators example_conv 2018 (operable_sheet ''A'' ''B'')") auto
  from C4_unique_key [of 2018 "operable_sheet ''A'' ''A''" "[PyInt 123, PyInt 123]"
      "[PyStr ''A'', PyStr ''A'']" 0 1 example_conv] pc gid
  have "\<exists>e. parse_generators example_conv 2018 (operable_sheet ''A'' ''A'') = Inl e"
    by simp
  moreover from C4_unique_key [of 2018 "operable_sheet ''A'' ''B''" _ _ _ _ example_conv out] out i
  have "distinct [PyStr ''123_A'', PyStr ''123_B'']" by simp
  ultimately show ?thesis using pc gid uuid dup ok by blast
qed

section \<open>The rows kept by \<^verbatim>\<open>parse_proposed\<close>\<close>

lemma is_sheet_rename: "is_sheet df \<Longrightarrow> is_sheet (rename m df)"
  by (simp add: is_sheet_def rename_def list_all_iff)

lemma is_sheet_series:
  assumes "is_sheet df" and "series e n df = Inr c"
  shows "length c = length (index df)"
proof -
  from assms(2) have "filter (\<lambda>x. fst x = n) (columns df) = [(n, c)]"
    by (simp add: series_Inr_iff)
  then have "(n, c) \<in> set (filter (\<lambda>x. fst x = n) (columns df))" by simp
  then have "(n, c) \<in> set (columns df)" by simp
  with assms(1) show ?thesis by (auto simp: is_sheet_def list_all_iff)
qed

lemma is_sheet_index: "is_sheet df \<Longrightarrow> index df = range_index (length (index df))"
  by (simp add: is_sheet_def)

lemma length_mask_and [simp]: "length (mask_and a b) = min (length a) (length b)"
  by (simp add: mask_and_def)

lemma nth_mask_and:
  "i < length a \<Longrightarrow> i < length b \<Longrightarrow> mask_and a b ! i \<longleftrightarrow> a ! i \<and> b ! i"
  by (simp add: mask_and_def)

lemma length_isin [simp]: "length (isin col vals) = length col"
  by (simp add: isin_def)

lemma nth_isin: "i < length col \<Longrightarrow> isin col vals ! i \<longleftrightarrow> col ! i \<in> PyStr ` set vals"
  by (simp add: isin_def)

lemma length_eq_str [simp]: "length (eq_str col s) = length col"
  by (simp add: eq_str_def)

lemma nth_eq_str: "i < length col \<Longrightarrow> eq_str col s ! i \<longleftrightarrow> col ! i = PyStr s"
  by (simp add: eq_str_def)

lemma keep_rows:
  assumes "length sel = n" and "length xs = n" and "\<And>i. i < n \<Longrightarrow> sel ! i \<longleftrightarrow> P i"
  shows "keep sel xs = map (\<lambda>i. xs ! i) (filter P [0..<n])"
proof -
  have "filter (\<lambda>i. sel ! i) [0..<n] = filter P [0..<n]"
    by (rule filter_cong) (simp_all add: assms(3))
  with assms(1,2) show ?thesis by (simp add: keep_as_map_nth)
qed

lemma keep_rows_index:
  assumes "length sel = n" and "\<And>i. i < n \<Longrightarrow> sel ! i \<longleftrightarrow> P i"
  shows "keep sel (range_index n) = map (\<lambda>i. PyInt (int i)) (filter P [0..<n])"
proof -
  have "keep sel (range_index n) = map (\<lambda>i. range_index n ! i) (filter P [0..<n])"
    using assms by (intro keep_rows) (simp_all add: range_index_def)
  also have "\<dots> = map (\<lambda>i. PyInt (int i)) (filter P [0..<n])"
    by (rule map_cong) (simp_all add: range_index_def)
  finally show ?thesis .
qed

lemma proposed_columns_distinct: "distinct proposed_columns"
  by (simp add: proposed_columns_def)

lemma parse_proposed_success:
  assumes "parse_proposed py year sheet = Inr out"
  obtains d1 sector status where
    "select proposed_columns (proposed_renamed sheet) = Inr d1"
    "getattr ''sector'' (proposed_renamed sheet) = Inr sector"
    "getattr ''status'' (proposed_renamed sheet) = Inr status"
    "index out = keep (proposed_mask sector status) (index sheet)"
    "\<And>n. n \<in> set proposed_columns \<Longrightarrow> n \<noteq> ''effective_year'' \<Longrightarrow>
       getattr n out =
       (case getattr n (proposed_renamed sheet) of
          Inl e \<Rightarrow> Inl e
        | Inr col \<Rightarrow> Inr (keep (proposed_mask sector status) col))"
proof -
  from assms obtain d1 sector status es1 ey ey' where
    d1: "select proposed_columns (proposed_renamed sheet) = Inr d1"
    and sector: "getattr ''sector'' d1 = Inr sector"
    and status: "getattr ''status'' d1 = Inr status"
    and out: "out = setitem ''effective_year'' ey'
        (setitem ''energy_source'' (map replace_mapping es1)
          (filter_rows (proposed_mask sector status) d1))"
    by (auto simp: parse_proposed_def and_then_Inr_iff Let_def)
  have sel: "getattr n d1 = getattr n (proposed_renamed sheet)" if "n \<in> set proposed_columns" for n
    unfolding getattr_def using d1 that proposed_columns_distinct by (rule series_select)
  have a: "getattr ''sector'' (proposed_renamed sheet) = Inr sector"
    using sel [of "''sector''"] sector by (simp add: proposed_columns_def)
  have b: "getattr ''status'' (proposed_renamed sheet) = Inr status"
    using sel [of "''status''"] status by (simp add: proposed_columns_def)
  have c: "index out = keep (proposed_mask sector status) (index sheet)"
    using out index_select [OF d1] by (simp add: proposed_renamed_def proposed_normalized_def)
  have d: "getattr n out =
       (case getattr n (proposed_renamed sheet) of
          Inl e \<Rightarrow> Inl e
        | Inr col \<Rightarrow> Inr (keep (proposed_mask sector status) col))"
    if "n \<in> set proposed_columns" "n \<noteq> ''effective_year''" for n
  proof -
    from that have "n \<noteq> ''energy_source''" by (auto simp: proposed_columns_def)
    with that(2) have "getattr n out = getattr n (filter_rows (proposed_mask sector status) d1)"
      by (simp add: out getattr_def series_setitem_other)
    with sel [OF that(1)] show ?thesis
      by (simp add: getattr_def series_filter_rows)
  qed
  from d1 a b c d that show thesis by blast
qed

text \<open>
  Claim C8. When \<^verbatim>\<open>parse_proposed\<close> returns, the rows of its frame are the rows of the
  sheet whose sector is \<open>IPP Non-CHP\<close> or \<open>Electric Utility\<close> and whose status is
  \<open>TS\<close>, \<open>V\<close>, \<open>U\<close> or \<open>T\<close>, in the order of the sheet and with the row numbers of
  the sheet as index; every projected column other than \<^verbatim>\<open>effective_year\<close>, which is
  converted, holds the cells of these rows. On the example sheet with the statuses
  \<open>TS\<close>, \<open>P\<close> and \<open>V\<close> the rows 0 and 2 remain, with the statuses \<open>TS\<close> and \<open>V\<close>.
\<close>

theorem C8_proposed_filter:
  "(is_sheet sheet \<and> parse_proposed py year sheet = Inr out \<longrightarrow>
    (\<exists>sector status rows.
       getattr ''sector'' (proposed_renamed sheet) = Inr sector \<and>
       getattr ''status'' (proposed_renamed sheet) = Inr status \<and>
       rows = filter (\<lambda>i. sector ! i \<in> PyStr ` {''IPP Non-CHP'', ''Electric Utility''} \<and>
                           status ! i \<in> PyStr ` {''TS'', ''V'', ''U'', ''T''})
                [0..<length (index sheet)] \<and>
       index out = map (\<lambda>i. PyInt (int i)) rows \<and>
       (\<forall>n col. n \<in> set proposed_columns \<and> n \<noteq> ''effective_year'' \<and>
          getattr n (proposed_renamed sheet) = Inr col \<longrightarrow>
          getattr n out = Inr (map (\<lambda>i. col ! i) rows)))) \<and>
   map_sum id index (parse_proposed example_conv 2018 proposed_sheet) = Inr [PyInt 0, PyInt 2] \<and>
   map_sum id (getattr ''status'') (parse_proposed example_conv 2018 proposed_sheet) =
     Inr (Inr [PyStr ''TS'', PyStr ''V''])"
proof (intro conjI impI)
  assume a: "is_sheet sheet \<and> parse_proposed py year sheet = Inr out"
  then have sh: "is_sheet (proposed_renamed sheet)"
    by (simp add: proposed_renamed_def proposed_normalized_def is_sheet_rename)
  have ix: "index (proposed_renamed sheet) = index sheet"
    by (simp add: proposed_renamed_def proposed_normalized_def)
  define n where "n = length (index sheet)"
  from a obtain d1 sector status where
    sector: "getattr ''sector'' (proposed_renamed sheet) = Inr sector"
    and status: "getattr ''status'' (proposed_renamed sheet) = Inr status"
    and index: "index out = keep (proposed_mask sector status) (index sheet)"
    and cols: "\<And>k. k \<in> set proposed_columns \<Longrightarrow> k \<noteq> ''effective_year'' \<Longrightarrow>
       getattr k out =
       (case getattr k (proposed_renamed sheet) of
          Inl e \<Rightarrow> Inl e
        | Inr col \<Rightarrow> Inr (keep (proposed_mask sector status) col))"
    by (auto elim: parse_proposed_success)
  define P where "P = (\<lambda>i. sector ! i \<in> PyStr ` {''IPP Non-CHP'', ''Electric Utility''} \<and>
                           status ! i \<in> PyStr ` {''TS'', ''V'', ''U'', ''T''})"
  define rows where "rows = filter P [0..<n]"
  have ls: "length sector = n" "length status = n"
    using is_sheet_series [OF sh] sector status by (simp_all add: getattr_def ix n_def)
  then have lm: "length (proposed_mask sector status) = n"
    by (simp add: proposed_mask_def)
  have nm: "proposed_mask sector status ! i \<longleftrightarrow> P i" if "i < n" for i
    using that ls by (simp add: proposed_mask_def nth_mask_and nth_isin P_def)
  have i: "index out = map (\<lambda>i. PyInt (int i)) rows"
    using index is_sheet_index [of sheet] a keep_rows_index [OF lm nm]
    by (simp add: rows_def n_def)
  have c: "getattr k out = Inr (map (\<lambda>i. col ! i) rows)"
    if "k \<in> set proposed_columns" "k \<noteq> ''effective_year''"
      "getattr k (proposed_renamed sheet) = Inr col" for k col
  proof -
    from that(3) have "length col = n"
      using is_sheet_series [OF sh] by (simp add: getattr_def ix n_def)
    with lm nm have "keep (proposed_mask sector status) col = map (\<lambda>i. col ! i) rows"
      unfolding rows_def by (intro keep_rows) simp_all
    with cols [OF that(1,2)] that(3) show ?thesis by simp
  qed
  from sector status i c show "\<exists>sector status rows.
       getattr ''sector'' (proposed_renamed sheet) = Inr sector \<and>
       getattr ''status'' (proposed_renamed sheet) = Inr status \<and>
       rows = filter (\<lambda>i. sector ! i \<in> PyStr ` {''IPP Non-CHP'', ''Electric Utility''} \<and>
                           status ! i \<in> PyStr ` {''TS'', ''V'', ''U'', ''T''})
                [0..<length (index sheet)] \<and>
       index out = map (\<lambda>i. PyInt (int i)) rows \<and>
       (\<forall>n col. n \<in> set proposed_columns \<and> n \<noteq> ''effective_year'' \<and>
          getattr n (proposed_renamed sheet) = Inr col \<longrightarrow>
          getattr n out = Inr (map (\<lambda>i. col ! i) rows))"
    unfolding rows_def P_def n_def by blast
next
  show "map_sum id index (parse_proposed example_conv 2018 proposed_sheet) = Inr [PyInt 0, PyInt 2]"
    by code_simp
  show "map_sum id (getattr ''status'') (parse_proposed example_conv 2018 proposed_sheet) =
     Inr (Inr [PyStr ''TS'', PyStr ''V''])"
    by code_simp
qed


theorem C8_proposed_filter_witness:
  "is_sheet proposed_sheet \<and>
   getattr ''sector'' (proposed_renamed proposed_sheet) =
     Inr [PyStr ''IPP Non-CHP'', PyStr ''IPP Non-CHP'', PyStr ''Electric Utility''] \<and>
   getattr ''status'' (proposed_renamed proposed_sheet) =
     Inr [PyStr ''TS'', PyStr ''P'', PyStr ''V''] \<and>
   (\<exists>out. parse_proposed example_conv 2018 proposed_sheet = Inr out \<and>
      index out = [PyInt 0, PyInt 2] \<and>
      getattr ''plant_name'' out = Inr [PyStr ''North'', PyStr ''East''])"
proof -
  have sh: "is_sheet proposed_sheet" by code_simp
  have sector: "getattr ''sector'' (proposed_renamed proposed_sheet) =
     Inr [PyStr ''IPP Non-CHP'', PyStr ''IPP Non-CHP'', PyStr ''Electric Utility'']"
    by code_simp
  have status: "getattr ''status'' (proposed_renamed proposed_sheet) =
     Inr [PyStr ''TS'', PyStr ''P'', PyStr ''V'']"
    by code_simp
  have name: "getattr ''plant_name'' (proposed_renamed proposed_sheet) =
     Inr [PyStr ''North'', PyStr ''South'', PyStr ''East'']"
    by code_simp
  have len: "length (index proposed_sheet) = 3" by code_simp
  have rows: "filter (\<lambda>i. [PyStr ''IPP Non-CHP'', PyStr ''IPP Non-CHP'', PyStr ''Electric Utility''] ! i
                  \<in> PyStr ` {''IPP Non-CHP'', ''Electric Utility''} \<and>
                [PyStr ''TS'', PyStr ''P'', PyStr ''V''] ! i \<in> PyStr ` {''TS'', ''V'', ''U'', ''T''})
            [0..<3] = [0, 2]"
    by (simp add: upt_rec numeral_nat)
  have "isl (parse_proposed example_conv 2018 proposed_sheet) = False" by code_simp
  then obtain out where out: "parse_proposed example_conv 2018 proposed_sheet = Inr out"
    by (cases "parse_proposed example_conv 2018 proposed_sheet") auto
  have pc: "''plant_name'' \<in> set proposed_columns" by (simp add: proposed_columns_def)
  from C8_proposed_filter [of proposed_sheet example_conv 2018 out] sh out sector status len rows
  have "index out = map (\<lambda>i. PyInt (int i)) [0, 2]"
    and "\<forall>n col. n \<in> set proposed_columns \<and> n \<noteq> ''effective_year'' \<and>
          getattr n (proposed_renamed proposed_sheet) = Inr col \<longrightarrow>
          getattr n out = Inr (map (\<lambda>i. col ! i) [0, 2])"
    by auto
  with pc name have "index out = [PyInt 0, PyInt 2]"
    "getattr ''plant_name'' out = Inr [PyStr ''North'', PyStr ''East'']"
    by auto
  with sh sector status out show ?thesis by blast
qed

section \<open>The integer coercion of \<^verbatim>\<open>parse_retired\<close>\<close>


lemma round_half_even_of_int [simp]: "round_half_even (of_int k) = k"
  by (simp add: round_half_even_def)

lemma trunc_of_int [simp]: "trunc (of_int k) = k"
  by (simp add: trunc_def)





lemma coerce_loop_success:
  assumes "coerce_loop py cols df = Inr out" and "distinct cols"
  shows "index out = index df \<and> labels out = labels df \<and>
    (\<forall>n. n \<notin> set cols \<longrightarrow> series e n out = series e n df) \<and>
    (\<forall>c \<in> set cols. \<exists>s v. getitem c df = Inr s \<and> coerce_int py s = Inr v \<and> getitem c out = Inr v)"
  using assms
proof (induction cols arbitrary: df e)
  case Nil
  then show ?case by simp
next
  case (Cons col cols)
  from Cons.prems obtain s v where s: "getitem col df = Inr s" and v: "coerce_int py s = Inr v"
    and rest: "coerce_loop py cols (setitem col v df) = Inr out"
    by (auto simp: and_then_Inr_iff)
  from Cons.prems have d: "distinct cols" "col \<notin> set cols" by simp_all
  note IH = Cons.IH [OF rest d(1), of e]
  note IHK = Cons.IH [OF rest d(1), of KeyError]
  from s have "filter (\<lambda>x. fst x = col) (columns df) = [(col, s)]"
    by (simp add: getitem_def series_Inr_iff)
  then have "(col, s) \<in> set (filter (\<lambda>x. fst x = col) (columns df))" by simp
  then have present: "col \<in> set (labels df)" by (force simp: labels_def)
  have a: "index out = index df" using IH by simp
  have b: "labels out = labels df" using IH present by (simp add: labels_setitem_present)
  have c: "series e n out = series e n df" if "n \<notin> set (col # cols)" for n
    using IH that by (simp add: series_setitem_other)
  have "getitem col out = getitem col (setitem col v df)"
    using IHK d(2) unfolding getitem_def by blast
  with s have h: "getitem col out = Inr v"
    by (simp add: getitem_def series_setitem_present)
  have t: "\<exists>s v. getitem c df = Inr s \<and> coerce_int py s = Inr v \<and> getitem c out = Inr v"
    if "c \<in> set cols" for c
  proof -
    from that d(2) have "c \<noteq> col" by auto
    then have eq: "getitem c (setitem col v df) = getitem c df"
      by (simp add: getitem_def series_setitem_other)
    from IH that obtain s1 v1 where "getitem c (setitem col v df) = Inr s1"
      "coerce_int py s1 = Inr v1" "getitem c out = Inr v1"
      by blast
    with eq have "getitem c df = Inr s1 \<and> coerce_int py s1 = Inr v1 \<and> getitem c out = Inr v1"
      by metis
    then show ?thesis by blast
  qed
  from a b c s v h t show ?case by auto
qed


section \<open>The frame of \<^verbatim>\<open>parse_retired\<close>\<close>




lemma retired_columns_distinct: "distinct retired_columns"
  by (simp add: retired_columns_def)

lemma coerced_columns_distinct: "distinct coerced_columns"
  by (simp add: coerced_columns_def)

lemma retired_selected_success:
  assumes "retired_selected df = Inr sel"
  obtains sector status where
    "getattr ''sector'' df = Inr sector" "getattr ''status'' df = Inr status"
    "index sel = keep (retired_mask sector status) (index df)"
    "set (labels sel) = set retired_columns"
    "\<And>n e. n \<in> set retired_columns \<Longrightarrow> n \<noteq> ''energy_source'' \<Longrightarrow>
       series e n sel =
       (case series e n df of
          Inl x \<Rightarrow> Inl x
        | Inr c \<Rightarrow> Inr (keep (retired_mask sector status) c))"
proof -
  from assms obtain es1 sector status where
    sector: "getattr ''sector'' (setitem ''energy_source'' (map replace_mapping es1) df) = Inr sector"
    and status: "getattr ''status'' (setitem ''energy_source'' (map replace_mapping es1) df) = Inr status"
    and sel: "select retired_columns
        (filter_rows (retired_mask sector status)
          (setitem ''energy_source'' (map replace_mapping es1) df)) = Inr sel"
    by (auto simp: retired_selected_def and_then_Inr_iff Let_def)
  have a: "getattr ''sector'' df = Inr sector" "getattr ''status'' df = Inr status"
    using sector status by (simp_all add: getattr_def series_setitem_other)
  have b: "index sel = keep (retired_mask sector status) (index df)"
    using index_select [OF sel] by simp
  have c: "set (labels sel) = set retired_columns"
    using sel by (rule labels_select)
  have d: "series e n sel =
       (case series e n df of
          Inl x \<Rightarrow> Inl x
        | Inr c \<Rightarrow> Inr (keep (retired_mask sector status) c))"
    if "n \<in> set retired_columns" "n \<noteq> ''energy_source''" for n e
    using series_select [OF sel that(1) retired_columns_distinct, of e] that(2)
    by (simp add: series_filter_rows series_setitem_other)
  from a b c d that show thesis by blast
qed

lemma parse_retired_success:
  assumes "parse_retired py year sheet = Inr out"
  obtains df sel where "retired_prepared year sheet = Inr df" "retired_selected df = Inr sel"
    "coerce_loop py coerced_columns sel = Inr out"
  using assms by (auto simp: parse_retired_def and_then_Inr_iff)


text \<open>
  Claim C2, as amended. When \<^verbatim>\<open>parse_retired\<close> returns, whatever the year, the labels
  of its frame are those of the projection of lines 172 to 182: \<^verbatim>\<open>utility_name\<close>,
  \<^verbatim>\<open>plant_name\<close>, \<^verbatim>\<open>plant_code\<close>, \<^verbatim>\<open>state\<close>, \<^verbatim>\<open>county\<close>,
  \<^verbatim>\<open>nameplate_capacity\<close>, \<^verbatim>\<open>energy_source\<close>, \<^verbatim>\<open>operating_year\<close> and
  \<^verbatim>\<open>retirement_year\<close>. The frame has no column \<^verbatim>\<open>generator_uuid\<close>,
  \<^verbatim>\<open>status\<close>, \<^verbatim>\<open>sector\<close> or \<^verbatim>\<open>energy_source_1\<close>.
\<close>

theorem C2_retired_columns:
  "parse_retired py year sheet = Inr out \<longrightarrow>
   set (labels out) =
     {''utility_name'', ''plant_name'', ''plant_code'', ''state'', ''county'',
      ''nameplate_capacity'', ''energy_source'', ''operating_year'', ''retirement_year''} \<and>
   ''generator_uuid'' \<notin> set (labels out) \<and> ''status'' \<notin> set (labels out) \<and>
   ''sector'' \<notin> set (labels out) \<and> ''energy_source_1'' \<notin> set (labels out)"
proof
  assume "parse_retired py year sheet = Inr out"
  then obtain df sel where sel: "retired_selected df = Inr sel"
    and out: "coerce_loop py coerced_columns sel = Inr out"
    by (rule parse_retired_success)
  from sel have "set (labels sel) = set retired_columns"
    by (rule retired_selected_success)
  moreover from coerce_loop_success [OF out coerced_columns_distinct]
  have "labels out = labels sel" by simp
  ultimately have "set (labels out) = set retired_columns" by simp
  then show "set (labels out) =
     {''utility_name'', ''plant_name'', ''plant_code'', ''state'', ''county'',
      ''nameplate_capacity'', ''energy_source'', ''operating_year'', ''retirement_year''} \<and>
   ''generator_uuid'' \<notin> set (labels out) \<and> ''status'' \<notin> set (labels out) \<and>
   ''sector'' \<notin> set (labels out) \<and> ''energy_source_1'' \<notin> set (labels out)"
    by (simp add: retired_columns_def)
qed

theorem C2_retired_columns_witness:
  "parse_retired example_conv 2000 (retired_sheet (PyInt 1995)) = Inr retired_result \<and>
   set (labels retired_result) =
     {''utility_name'', ''plant_name'', ''plant_code'', ''state'', ''county'',
      ''nameplate_capacity'', ''energy_source'', ''operating_year'', ''retirement_year''}"
proof
  show run: "parse_retired example_conv 2000 (retired_sheet (PyInt 1995)) = Inr retired_result"
    by code_simp
  have "set (labels retired_result) =
     {''utility_name'', ''plant_name'', ''plant_code'', ''state'', ''county'',
      ''nameplate_capacity'', ''energy_source'', ''operating_year'', ''retirement_year''} \<and>
   ''generator_uuid'' \<notin> set (labels retired_result) \<and> ''status'' \<notin> set (labels retired_result) \<and>
   ''sector'' \<notin> set (labels retired_result) \<and> ''energy_source_1'' \<notin> set (labels retired_result)"
    using C2_retired_columns [of example_conv 2000 "retired_sheet (PyInt 1995)" retired_result] run
    by (rule mp)
  then show "set (labels retired_result) =
     {''utility_name'', ''plant_name'', ''plant_code'', ''state'', ''county'',
      ''nameplate_capacity'', ''energy_source'', ''operating_year'', ''retirement_year''}"
    by (rule conjunct1)
qed

text \<open>
  The claim as stated fails: on the example sheet of 2000 the frame returned has the nine
  columns of the projection, and \<^verbatim>\<open>generator_uuid\<close> is not among them.
\<close>

theorem C2_counterexample:
  "parse_retired example_conv 2000 (retired_sheet (PyInt 1995)) = Inr retired_result \<and>
   labels retired_result =
     [''utility_name'', ''plant_name'', ''plant_code'', ''state'', ''county'',
      ''nameplate_capacity'', ''energy_source'', ''operating_year'', ''retirement_year''] \<and>
   ''generator_uuid'' \<notin> set (labels retired_result)"
proof (intro conjI)
  show "parse_retired example_conv 2000 (retired_sheet (PyInt 1995)) = Inr retired_result"
    by code_simp
  show "labels retired_result =
     [''utility_name'', ''plant_name'', ''plant_code'', ''state'', ''county'',
      ''nameplate_capacity'', ''energy_source'', ''operating_year'', ''retirement_year'']"
    by (simp add: retired_result_def labels_def)
  then show "''generator_uuid'' \<notin> set (labels retired_result)"
    by simp
qed



section \<open>The rescaling of the sheets of 2000\<close>

lemma setitem_mem_same: "(n, c) \<in> set (columns (setitem n c df))"
  by (force simp: setitem_def labels_def)

lemma index_retired_relabelled [simp]: "index (retired_relabelled df) = index df"
  by (simp add: retired_relabelled_def)


lemma is_sheet_setitem:
  "is_sheet df \<Longrightarrow> length c = length (index df) \<Longrightarrow> is_sheet (setitem n c df)"
  by (auto simp: is_sheet_def setitem_def list_all_iff)

lemma is_sheet_retired_relabelled: "is_sheet df \<Longrightarrow> is_sheet (retired_relabelled df)"
  by (simp add: retired_relabelled_def setitem_scalar_def is_sheet_setitem is_sheet_rename)









section \<open>The blank marker\<close>

lemma series_any_error: "series e n df = Inr c \<Longrightarrow> series e' n df = Inr c"
  by (simp add: series_Inr_iff)






end
